theory Spec2Isabelle
  imports Main
begin

section \<open>Python values used by the editor\<close>

text \<open>
  The editor of \<^verbatim>\<open>keepassc/editor.py\<close> is a Python class whose methods mutate the
  fields of the instance.  Strings are modelled as \<^typ>\<open>string\<close>; a character is a code
  point below 256.  Python integers are \<^typ>\<open>int\<close>.  An exception that leaves a
  method is a value \<open>Inl e\<close> of the result.
\<close>

datatype error = IndexError | TypeError | ValueError

definition err_bind :: "error + 'a \<Rightarrow> ('a \<Rightarrow> error + 'b) \<Rightarrow> error + 'b" where
  "err_bind m f = (case m of Inl e \<Rightarrow> Inl e | Inr x \<Rightarrow> f x)"

text \<open>\<^verbatim>\<open>xs[i]\<close>: a negative index counts from the end, an index out of range raises.\<close>

definition py_index :: "'a list \<Rightarrow> int \<Rightarrow> error + nat" where
  "py_index xs i =
     (if 0 \<le> i \<and> i < int (length xs) then Inr (nat i)
      else if i < 0 \<and> - int (length xs) \<le> i then Inr (nat (int (length xs) + i))
      else Inl IndexError)"

definition py_get :: "'a list \<Rightarrow> int \<Rightarrow> error + 'a" where
  "py_get xs i = err_bind (py_index xs i) (\<lambda>j. Inr (xs ! j))"

text \<open>\<^verbatim>\<open>xs[i] = v\<close> and \<^verbatim>\<open>del xs[i]\<close>.\<close>

definition py_set :: "'a list \<Rightarrow> int \<Rightarrow> 'a \<Rightarrow> error + 'a list" where
  "py_set xs i v = err_bind (py_index xs i) (\<lambda>j. Inr (xs[j := v]))"

definition py_del :: "'a list \<Rightarrow> int \<Rightarrow> error + 'a list" where
  "py_del xs i = err_bind (py_index xs i) (\<lambda>j. Inr (take j xs @ drop (Suc j) xs))"

text \<open>
  The bound of a slice \<^verbatim>\<open>xs[:i]\<close>, \<^verbatim>\<open>xs[i:]\<close> and the position of
  \<^verbatim>\<open>xs.insert(i, v)\<close>: negative counts from the end, and the result is clipped to
  the list.
\<close>

definition py_bound :: "'a list \<Rightarrow> int \<Rightarrow> nat" where
  "py_bound xs i =
     (if i < 0 then nat (int (length xs) + i) else min (length xs) (nat i))"

definition py_upto :: "'a list \<Rightarrow> int \<Rightarrow> 'a list" where
  "py_upto xs i = take (py_bound xs i) xs"

definition py_from :: "'a list \<Rightarrow> int \<Rightarrow> 'a list" where
  "py_from xs i = drop (py_bound xs i) xs"

definition py_insert :: "'a list \<Rightarrow> int \<Rightarrow> 'a \<Rightarrow> 'a list" where
  "py_insert xs i v = take (py_bound xs i) xs @ v # drop (py_bound xs i) xs"

text \<open>\<^verbatim>\<open>sep.join(xs)\<close> for a separator of one character.\<close>

fun join :: "char \<Rightarrow> string list \<Rightarrow> string" where
  "join sep [] = []"
| "join sep [x] = x"
| "join sep (x # y # ys) = x @ sep # join sep (y # ys)"

text \<open>\<^verbatim>\<open>s.split(' ')\<close>: every space separates, so the result is never empty.\<close>

fun split_sp :: "string \<Rightarrow> string list" where
  "split_sp [] = [[]]"
| "split_sp (c # cs) =
     (if c = CHR '' '' then [] # split_sp cs
      else (case split_sp cs of [] \<Rightarrow> [[c]] | w # ws \<Rightarrow> (c # w) # ws))"

definition startswith :: "string \<Rightarrow> string \<Rightarrow> bool" where
  "startswith s p = (take (length p) s = p)"

definition endswith :: "string \<Rightarrow> string \<Rightarrow> bool" where
  "endswith s p = (length p \<le> length s \<and> drop (length s - length p) s = p)"

subsection \<open>Character classes\<close>

text \<open>
  \<open>is_ws\<close> is \<^verbatim>\<open>textwrap._whitespace\<close>, the characters \<^verbatim>\<open>\t\n\x0b\x0c\r\<close> and the
  space.  \<open>is_space\<close> is what \<^verbatim>\<open>str.strip\<close> and \<^verbatim>\<open>str.rstrip\<close> remove.
  \<open>is_linebreak\<close> is where \<^verbatim>\<open>str.splitlines\<close> cuts.  \<open>is_wordchar\<close> is the
  regular expression class \<^verbatim>\<open>\w\<close>, \<open>is_letter\<close> is \<^verbatim>\<open>[^\d\W]\<close> and
  \<open>is_wordpunct\<close> is \<^verbatim>\<open>[\w!"'&.,?]\<close>.
\<close>

definition is_ws :: "char \<Rightarrow> bool" where
  "is_ws c = (let n = (of_char c :: nat) in (9 \<le> n \<and> n \<le> 13) \<or> n = 32)"

definition is_space :: "char \<Rightarrow> bool" where
  "is_space c = (let n = (of_char c :: nat) in
     (9 \<le> n \<and> n \<le> 13) \<or> (28 \<le> n \<and> n \<le> 32) \<or> n = 133 \<or> n = 160)"

definition is_linebreak :: "char \<Rightarrow> bool" where
  "is_linebreak c = (let n = (of_char c :: nat) in
     (10 \<le> n \<and> n \<le> 13) \<or> (28 \<le> n \<and> n \<le> 30) \<or> n = 133)"

definition is_digit :: "char \<Rightarrow> bool" where
  "is_digit c = (let n = (of_char c :: nat) in 48 \<le> n \<and> n \<le> 57)"

definition is_letter :: "char \<Rightarrow> bool" where
  "is_letter c = (let n = (of_char c :: nat) in
     (65 \<le> n \<and> n \<le> 90) \<or> n = 95 \<or> (97 \<le> n \<and> n \<le> 122) \<or> n = 170 \<or>
     (178 \<le> n \<and> n \<le> 179) \<or> n = 181 \<or> (185 \<le> n \<and> n \<le> 186) \<or>
     (188 \<le> n \<and> n \<le> 190) \<or> (192 \<le> n \<and> n \<le> 214) \<or>
     (216 \<le> n \<and> n \<le> 246) \<or> 248 \<le> n)"

definition is_wordchar :: "char \<Rightarrow> bool" where
  "is_wordchar c = (is_letter c \<or> is_digit c)"

definition is_wordpunct :: "char \<Rightarrow> bool" where
  "is_wordpunct c =
     (is_wordchar c \<or>
      c \<in> set [CHR ''!'', CHR 0x22, CHR 0x27, CHR ''&'', CHR ''.'', CHR '','', CHR ''?''])"

text \<open>\<^verbatim>\<open>s.strip() == ''\<close> and \<^verbatim>\<open>s.rstrip()\<close>.\<close>

definition strip_empty :: "string \<Rightarrow> bool" where
  "strip_empty s = list_all is_space s"

definition rstrip :: "string \<Rightarrow> string" where
  "rstrip s = rev (dropWhile is_space (rev s))"

section \<open>The wrapping of one line\<close>

text \<open>
  \<^verbatim>\<open>wrap(text, width)\<close> is \<^verbatim>\<open>textwrap.wrap\<close> of the Python library with its default
  options: tabs are expanded to columns of 8, every whitespace character becomes a space,
  the text is cut into chunks (runs of whitespace, words, and the parts of a hyphenated
  word), and the chunks are packed greedily into lines of at most \<open>width\<close> characters;
  whitespace at the end of a line and at the start of every line but the first is dropped,
  and a chunk longer than the width is broken.
\<close>

fun expandtabs :: "nat \<Rightarrow> string \<Rightarrow> string" where
  "expandtabs j [] = []"
| "expandtabs j (c # cs) =
     (if c = CHR 0x09 then replicate (8 - j mod 8) (CHR '' '') @ expandtabs (j + (8 - j mod 8)) cs
      else if c = CHR 0x0A \<or> c = CHR 0x0D then c # expandtabs 0 cs
      else c # expandtabs (Suc j) cs)"

definition munge_whitespace :: "string \<Rightarrow> string" where
  "munge_whitespace text = map (\<lambda>c. if is_ws c then CHR '' '' else c) (expandtabs 0 text)"

text \<open>
  The chunks are the matches of \<^verbatim>\<open>wordsep_re\<close>.  A position is given by the characters
  before it, nearest first (\<open>bef\<close>), and the characters from it on.  \<open>emdash_len\<close> is the
  length of a match of \<^verbatim>\<open>-{2,}(?=\w)\<close>, or 0.
\<close>

definition emdash_len :: "string \<Rightarrow> nat" where
  "emdash_len rest =
     (let k = length (takeWhile (\<lambda>c. c = CHR ''-'') rest)
      in if 2 \<le> k \<and> (case drop k rest of [] \<Rightarrow> False | c # _ \<Rightarrow> is_wordchar c) then k else 0)"

text \<open>
  A hyphen at which a word is cut:
  \<^verbatim>\<open>-(?:(?<=[^\d\W]{2}-)|(?<=[^\d\W]-[^\d\W]-))(?=[^\d\W]-?[^\d\W])\<close>.
\<close>

definition hyphen_break :: "string \<Rightarrow> string \<Rightarrow> bool" where
  "hyphen_break bef rest =
     (case rest of
        [] \<Rightarrow> False
      | h # after \<Rightarrow>
          h = CHR ''-'' \<and>
          ((case bef of b1 # b2 # _ \<Rightarrow> is_letter b1 \<and> is_letter b2 | _ \<Rightarrow> False) \<or>
           (case bef of b1 # b2 # b3 # _ \<Rightarrow> is_letter b1 \<and> b2 = CHR ''-'' \<and> is_letter b3
            | _ \<Rightarrow> False)) \<and>
          (case after of
             l1 # l2 # more \<Rightarrow>
               is_letter l1 \<and>
               (is_letter l2 \<or>
                (l2 = CHR ''-'' \<and> (case more of [] \<Rightarrow> False | l3 # _ \<Rightarrow> is_letter l3)))
           | _ \<Rightarrow> False))"

text \<open>
  The rest of a word whose first characters are consumed: the lazy \<^verbatim>\<open>[^ws]+?\<close> stops
  at the first position where a hyphen cuts the word (the hyphen is consumed), where the
  word ends, or where an em-dash follows a word character.
\<close>

fun word_more :: "string \<Rightarrow> string \<Rightarrow> nat" where
  "word_more bef [] = 0"
| "word_more bef (d # ds) =
     (if hyphen_break bef (d # ds) then 1
      else if is_ws d then 0
      else if (case bef of [] \<Rightarrow> False | b # _ \<Rightarrow> is_wordpunct b) \<and> 0 < emdash_len (d # ds) then 0
      else Suc (word_more (d # bef) ds))"

text \<open>The number of characters of the chunk that starts with \<open>c\<close>, after \<open>c\<close>.\<close>

definition chunk_more :: "string \<Rightarrow> char \<Rightarrow> string \<Rightarrow> nat" where
  "chunk_more bef c cs =
     (if is_ws c then length (takeWhile is_ws cs)
      else if (case bef of [] \<Rightarrow> False | b # _ \<Rightarrow> is_wordpunct b) \<and> 0 < emdash_len (c # cs)
        then emdash_len (c # cs) - 1
      else word_more (c # bef) cs)"

function split_from :: "string \<Rightarrow> string \<Rightarrow> string list" where
  "split_from bef [] = []"
| "split_from bef (c # cs) =
     (let m = chunk_more bef c cs
      in (c # take m cs) # split_from (rev (take m cs) @ c # bef) (drop m cs))"
  by pat_completeness auto
termination
  by (relation "measure (\<lambda>(bef, rest). length rest)") auto

definition split_chunks :: "string \<Rightarrow> string list" where
  "split_chunks text = split_from [] (munge_whitespace text)"

text \<open>The inner loop of \<^verbatim>\<open>_wrap_chunks\<close>: chunks are taken while they fit.\<close>

fun take_fit :: "nat \<Rightarrow> nat \<Rightarrow> string list \<Rightarrow> string list \<times> string list" where
  "take_fit width cur_len [] = ([], [])"
| "take_fit width cur_len (c # cs) =
     (if cur_len + length c \<le> width
      then (case take_fit width (cur_len + length c) cs of (taken, rest) \<Rightarrow> (c # taken, rest))
      else ([], c # cs))"

text \<open>\<^verbatim>\<open>chunk.rfind('-', 0, stop)\<close>, with \<open>None\<close> for -1.\<close>

fun rfind_hyphen :: "string \<Rightarrow> nat \<Rightarrow> nat option" where
  "rfind_hyphen chunk 0 = None"
| "rfind_hyphen chunk (Suc i) =
     (if i < length chunk \<and> chunk ! i = CHR ''-'' then Some i else rfind_hyphen chunk i)"

text \<open>
  \<^verbatim>\<open>_handle_long_word\<close>: where the chunk that fits on no line is cut, given the width
  and the length of the line so far.
\<close>

definition long_word_end :: "nat \<Rightarrow> nat \<Rightarrow> string \<Rightarrow> nat" where
  "long_word_end width cur_len chunk =
     (let space_left = (if width < 1 then 1 else width - cur_len)
      in if space_left < length chunk
         then (case rfind_hyphen chunk space_left of
                 None \<Rightarrow> space_left
               | Some h \<Rightarrow>
                   if 0 < h \<and> (\<exists>c\<in>set (take h chunk). c \<noteq> CHR ''-'') then h + 1
                   else space_left)
         else space_left)"

text \<open>One line of \<^verbatim>\<open>_wrap_chunks\<close>: the chunks of the line and the chunks left.\<close>

definition wrap_line :: "nat \<Rightarrow> string list \<Rightarrow> string list \<Rightarrow> string list \<times> string list" where
  "wrap_line width lines chunks =
     (let chunks1 = (if strip_empty (hd chunks) \<and> lines \<noteq> [] then tl chunks else chunks);
          (cur_line, chunks2) = take_fit width 0 chunks1;
          cur_len = length (concat cur_line);
          (cur_line2, chunks3) =
            (case chunks2 of
               [] \<Rightarrow> (cur_line, chunks2)
             | d # ds \<Rightarrow>
                 if width < length d
                 then (cur_line @ [take (long_word_end width cur_len d) d],
                       drop (long_word_end width cur_len d) d # ds)
                 else (cur_line, chunks2));
          cur_line3 =
            (if cur_line2 \<noteq> [] \<and> strip_empty (last cur_line2) then butlast cur_line2
             else cur_line2)
      in (cur_line3, chunks3))"

definition chunks_size :: "string list \<Rightarrow> nat" where
  "chunks_size chunks = length (concat chunks) + length chunks"

lemma take_fit_append: "take_fit width n xs = (a, b) \<Longrightarrow> xs = a @ b"
  by (induction xs arbitrary: n a b) (auto split: if_splits prod.splits)

lemma take_fit_none: "take_fit width n (x # xs) = ([], b) \<Longrightarrow> width < n + length x"
  by (auto split: if_splits prod.splits)

lemma long_word_end_pos: "width < length d \<Longrightarrow> 0 < long_word_end width 0 d"
  by (auto simp: long_word_end_def Let_def split: option.splits)

lemma wrap_line_smaller:
  assumes "chunks \<noteq> []" and "wrap_line width lines chunks = (cur_line, rest)"
  shows "chunks_size rest < chunks_size chunks"
proof -
  define chunks1 where "chunks1 = (if strip_empty (hd chunks) \<and> lines \<noteq> [] then tl chunks else chunks)"
  obtain taken chunks2 where tf: "take_fit width 0 chunks1 = (taken, chunks2)"
    by (cases "take_fit width 0 chunks1")
  have c1: "chunks1 = taken @ chunks2" using take_fit_append [OF tf] .
  have le1: "chunks_size chunks1 \<le> chunks_size chunks"
    using assms(1) by (cases chunks) (auto simp: chunks1_def chunks_size_def)
  have le2: "chunks_size chunks2 \<le> chunks_size chunks1"
    by (simp add: c1 chunks_size_def)
  show ?thesis
  proof (cases chunks2)
    case Nil
    then have "rest = []"
      using assms(2) tf by (simp add: wrap_line_def chunks1_def [symmetric] Let_def)
    then show ?thesis using assms(1) by (cases chunks) (auto simp: chunks_size_def)
  next
    case (Cons d ds)
    show ?thesis
    proof (cases "width < length d")
      case False
      then have r: "rest = chunks2"
        using assms(2) tf Cons by (simp add: wrap_line_def chunks1_def [symmetric] Let_def)
      have "chunks_size chunks2 < chunks_size chunks"
      proof (cases "taken = []")
        case True
        then have "chunks1 = d # ds" using c1 Cons by simp
        with tf True have "width < 0 + length d" using take_fit_none by metis
        with False show ?thesis by simp
      next
        case False
        then have "chunks_size chunks2 < chunks_size chunks1"
          by (cases taken) (auto simp: c1 chunks_size_def)
        with le1 show ?thesis by simp
      qed
      with r show ?thesis by simp
    next
      case True
      then have r: "rest = drop (long_word_end width (length (concat taken)) d) d # ds"
        using assms(2) tf Cons by (simp add: wrap_line_def chunks1_def [symmetric] Let_def)
      show ?thesis
      proof (cases "taken = []")
        case t: True
        have "0 < long_word_end width 0 d" using True by (rule long_word_end_pos)
        then have "chunks_size rest < chunks_size chunks2"
          using True r t Cons by (auto simp: chunks_size_def)
        with le1 le2 show ?thesis by simp
      next
        case False
        then have "chunks_size chunks2 < chunks_size chunks1"
          by (cases taken) (auto simp: c1 chunks_size_def)
        moreover have "chunks_size rest \<le> chunks_size chunks2"
          using r Cons by (auto simp: chunks_size_def)
        ultimately show ?thesis using le1 by simp
      qed
    qed
  qed
qed

function wrap_chunks :: "nat \<Rightarrow> string list \<Rightarrow> string list \<Rightarrow> string list" where
  "wrap_chunks width lines chunks =
     (if chunks = [] then lines
      else (case wrap_line width lines chunks of
              (cur_line, rest) \<Rightarrow>
                wrap_chunks width (if cur_line \<noteq> [] then lines @ [concat cur_line] else lines)
                  rest))"
  by pat_completeness auto
termination
  by (relation "measure (\<lambda>(width, lines, chunks). chunks_size chunks)")
     (auto intro: wrap_line_smaller [OF _ sym])

declare wrap_chunks.simps [simp del]

text \<open>\<^verbatim>\<open>wrap(text, width)\<close>; \<^verbatim>\<open>_wrap_chunks\<close> raises when the width is not positive.\<close>

definition wrap :: "string \<Rightarrow> int \<Rightarrow> error + string list" where
  "wrap text width =
     (if width \<le> 0 then Inl ValueError
      else Inr (wrap_chunks (nat width) [] (split_chunks text)))"

section \<open>The editor\<close>

text \<open>
  \<^verbatim>\<open>self.text\<close> is a list of lines, each a list of rows; \<^verbatim>\<open>quit_nosave\<close> replaces it by
  \<^verbatim>\<open>False\<close> and \<^verbatim>\<open>close\<close> by \<^verbatim>\<open>-1\<close>.
\<close>

datatype doc = Rows "string list list" | DocFalse | DocMinusOne

text \<open>
  The fields of the instance.  \<open>scr_maxyx\<close> is what \<^verbatim>\<open>self.scr.getmaxyx()\<close> answers.
  \<^verbatim>\<open>line_idx\<close>, \<^verbatim>\<open>row_idx\<close> and \<^verbatim>\<open>text_orig\<close> are written once and never read, and are
  left out.  The window \<^verbatim>\<open>boxscr\<close> exists when there is a box or a title.
\<close>

record editor =
  space_counter :: int
  title :: string
  box :: bool
  max_text_size :: int
  pw_mode :: bool
  resize_flag :: bool
  scr_maxyx :: "int \<times> int"
  win_location_x :: int
  win_location_y :: int
  win_size_orig_y :: int
  win_size_orig_x :: int
  win_size_y :: int
  win_size_x :: int
  max_win_size_y :: int
  max_win_size_x :: int
  x_scroll :: bool
  cur_pos_y :: int
  cur_pos_x :: int
  y_offset :: int
  x_offset :: int
  buffer_idx_y :: int
  buffer_idx_x :: int
  the_text :: doc
  max_cols :: int
  num_rows :: int
  buffer_list :: "(int \<times> int \<times> string) list"
  buf_length :: int

definition rows_of :: "editor \<Rightarrow> error + string list list" where
  "rows_of s = (case the_text s of Rows t \<Rightarrow> Inr t | _ \<Rightarrow> Inl TypeError)"

text \<open>\<^verbatim>\<open>t[ln][r]\<close> and \<^verbatim>\<open>t[ln][r] = v\<close>.\<close>

definition get_row :: "string list list \<Rightarrow> int \<Rightarrow> int \<Rightarrow> error + string" where
  "get_row t ln r = err_bind (py_get t ln) (\<lambda>line. py_get line r)"

definition set_row :: "string list list \<Rightarrow> int \<Rightarrow> int \<Rightarrow> string \<Rightarrow> error + string list list" where
  "set_row t ln r v =
     err_bind (py_get t ln) (\<lambda>line.
     err_bind (py_set line r v) (\<lambda>line'. py_set t ln line'))"

text \<open>\<^verbatim>\<open>wrap(" ".join(t[ln]), width) or [""]\<close> stored in \<^verbatim>\<open>t[ln]\<close>.\<close>

definition rewrap :: "string list list \<Rightarrow> int \<Rightarrow> int \<Rightarrow> error + string list list" where
  "rewrap t ln width =
     err_bind (py_get t ln) (\<lambda>line.
     err_bind (wrap (join (CHR '' '') line) width) (\<lambda>w.
     py_set t ln (if w = [] then [[]] else w)))"

fun index_rows :: "int \<Rightarrow> int \<Rightarrow> string list \<Rightarrow> (int \<times> int \<times> string) list" where
  "index_rows idx_line idx_row [] = []"
| "index_rows idx_line idx_row (row # rows) =
     (idx_line, idx_row, row) # index_rows idx_line (idx_row + 1) rows"

fun index_lines :: "int \<Rightarrow> string list list \<Rightarrow> (int \<times> int \<times> string) list" where
  "index_lines idx_line [] = []"
| "index_lines idx_line (line # lines) =
     index_rows idx_line 0 line @ index_lines (idx_line + 1) lines"

definition buffer_set :: "editor \<Rightarrow> error + editor" where
  "buffer_set s =
     err_bind (rows_of s) (\<lambda>t.
     let lens = map (\<lambda>j. int (length j)) (concat t);
         s1 = s\<lparr>max_cols := (case lens of [] \<Rightarrow> win_size_x s | x # xs \<Rightarrow> fold max xs x),
                num_rows := int (length (concat t)),
                buffer_idx_y := cur_pos_y s + y_offset s,
                buffer_list := (if index_lines 0 t = [] then [(0, 0, [])] else index_lines 0 t)\<rparr>
     in err_bind (py_get (buffer_list s1) (buffer_idx_y s1)) (\<lambda>(ln, r, row).
        Inr (s1\<lparr>buf_length := int (length row), buffer_idx_x := cur_pos_x s1 + x_offset s1\<rparr>)))"

subsection \<open>Moving the cursor\<close>

definition end_of_line_check :: "editor \<Rightarrow> error + editor" where
  "end_of_line_check s =
     err_bind (buffer_set s) (\<lambda>s1.
     Inr (if cur_pos_x s1 > buf_length s1 then s1\<lparr>cur_pos_x := buf_length s1\<rparr> else s1))"

definition up :: "editor \<Rightarrow> error + editor" where
  "up s =
     end_of_line_check
       (if cur_pos_y s > 0 then s\<lparr>cur_pos_y := cur_pos_y s - 1\<rparr>
        else s\<lparr>y_offset := max 0 (y_offset s - 1)\<rparr>)"

definition down :: "editor \<Rightarrow> error + editor" where
  "down s =
     (if cur_pos_y s < win_size_y s - 1 \<and> buffer_idx_y s < num_rows s - 1
      then end_of_line_check (s\<lparr>cur_pos_y := cur_pos_y s + 1\<rparr>)
      else if buffer_idx_y s = num_rows s - 1 then Inr s
      else end_of_line_check
             (s\<lparr>y_offset := min (num_rows s - win_size_y s) (y_offset s + 1)\<rparr>))"

definition left :: "editor \<Rightarrow> error + editor" where
  "left s =
     (if cur_pos_x s > 0 then Inr (s\<lparr>cur_pos_x := cur_pos_x s - 1\<rparr>)
      else if cur_pos_y s > 0
        then err_bind (up s) (\<lambda>s1. end_of_line_check (s1\<lparr>cur_pos_x := max_cols s1\<rparr>))
      else Inr s)"

definition right :: "editor \<Rightarrow> error + editor" where
  "right s =
     (if cur_pos_x s < buf_length s then Inr (s\<lparr>cur_pos_x := cur_pos_x s + 1\<rparr>)
      else if buffer_idx_y s < num_rows s - 1 then down (s\<lparr>cur_pos_x := 0\<rparr>)
      else Inr s)"

definition cursor_end :: "editor \<Rightarrow> editor" where
  "cursor_end s = s\<lparr>cur_pos_x := buf_length s\<rparr>"

definition home :: "editor \<Rightarrow> editor" where
  "home s = s\<lparr>cur_pos_x := 0\<rparr>"

definition page_up :: "editor \<Rightarrow> error + editor" where
  "page_up s = end_of_line_check (s\<lparr>y_offset := max 0 (y_offset s - win_size_y s)\<rparr>)"

definition page_down :: "editor \<Rightarrow> error + editor" where
  "page_down s =
     end_of_line_check
       (s\<lparr>y_offset := max 0 (min (num_rows s - win_size_y s - 1) (y_offset s + win_size_y s))\<rparr>)"

subsection \<open>Editing\<close>

text \<open>
  \<^verbatim>\<open>get_cur_word(text, forward)\<close>: the last (forward) or the first word of the text before
  the column \<^verbatim>\<open>buffer_idx_x\<close>.
\<close>

definition get_cur_word :: "editor \<Rightarrow> string \<Rightarrow> bool \<Rightarrow> string" where
  "get_cur_word s text forward =
     (let ws = split_sp (py_upto text (buffer_idx_x s))
      in if forward then last ws else hd ws)"

definition word_wrap_jump :: "string \<Rightarrow> string \<Rightarrow> editor \<Rightarrow> error + editor" where
  "word_wrap_jump cur_word cur_word_wrapd s =
     (if cur_word \<noteq> cur_word_wrapd \<and> cur_word \<noteq> []
      then err_bind (py_get (buffer_list s) (buffer_idx_y s - 1)) (\<lambda>(ln0, r0, prev).
           if endswith prev cur_word \<or> endswith prev (butlast cur_word)
           then err_bind (up s) (\<lambda>s1. Inr (cursor_end s1))
           else err_bind (py_get (buffer_list s) (buffer_idx_y s)) (\<lambda>(ln1, r1, cur).
                if startswith cur cur_word \<or> startswith cur (butlast cur_word)
                then Inr (s\<lparr>cur_pos_x := int (length cur_word) + 1\<rparr>)
                else Inr s))
      else Inr s)"

text \<open>
  A key read by \<^verbatim>\<open>get_wch\<close> is a character, or an integer for a special key.
\<close>

datatype key = KeyCode int | KeyChar char

fun insert_char :: "key \<Rightarrow> editor \<Rightarrow> error + editor" where
  "insert_char (KeyCode n) s = Inr s"
| "insert_char (KeyChar c) s =
     err_bind (py_get (buffer_list s) (buffer_idx_y s)) (\<lambda>(ln, r, line).
     let line1 = (if line = [] then [c] else py_insert line (buffer_idx_x s) c)
     in
     err_bind (rows_of s) (\<lambda>t.
     err_bind (set_row t ln r line1) (\<lambda>t1.
     let sc = int (length line1) - int (length (rstrip line1)) + 1;
         cur_word = get_cur_word s line1 True
     in
     err_bind (rewrap t1 ln (win_size_x s - 1)) (\<lambda>t2.
     err_bind (get_row t2 ln r) (\<lambda>row2.
     let cur_word_wrapd = get_cur_word s row2 True
     in
     err_bind
       (if sc \<noteq> 0
        then err_bind (py_get (buffer_list s) (buffer_idx_y s)) (\<lambda>(ln', r', line').
             err_bind (get_row t2 ln' r') (\<lambda>row'.
             set_row t2 ln' r' (row' @ replicate (nat sc) (CHR '' ''))))
        else Inr t2) (\<lambda>t3.
     err_bind (buffer_set (s\<lparr>the_text := Rows t3, space_counter := sc\<rparr>)) (\<lambda>s1.
     err_bind (right s1) (\<lambda>s2.
     word_wrap_jump cur_word cur_word_wrapd s2))))))))"

definition insert_tab :: "editor \<Rightarrow> error + editor" where
  "insert_tab s =
     err_bind (insert_char (KeyChar (CHR '' '')) s) (\<lambda>s1.
     err_bind (insert_char (KeyChar (CHR '' '')) s1) (\<lambda>s2.
     err_bind (insert_char (KeyChar (CHR '' '')) s2) (\<lambda>s3.
     insert_char (KeyChar (CHR '' '')) s3)))"

text \<open>What a handler returns to the loop.\<close>

datatype pyval = PNone | PTrue | PFalse | PMinusOne | PStr string

definition insert_line_or_quit :: "editor \<Rightarrow> error + (pyval \<times> editor)" where
  "insert_line_or_quit s =
     (if max_text_size s = 1 then Inr (PFalse, s)
      else if num_rows s = max_text_size s then Inr (PNone, s)
      else
        err_bind (py_get (buffer_list s) (buffer_idx_y s)) (\<lambda>(ln, r, line).
        let newline = py_from line (cur_pos_x s);
            line1 = py_upto line (cur_pos_x s)
        in
        err_bind (rows_of s) (\<lambda>t.
        err_bind (py_get t ln) (\<lambda>l.
        let oldline1 = py_upto l r @ [line1];
            oldline2 = newline # py_from l (r + 1)
        in
        err_bind (py_del t ln) (\<lambda>t1.
        let t2 = py_insert t1 ln oldline2;
            t3 = py_insert t2 ln oldline1
        in
        err_bind (buffer_set (s\<lparr>the_text := Rows t3\<rparr>)) (\<lambda>s1.
        err_bind (down (s1\<lparr>cur_pos_x := 0\<rparr>)) (\<lambda>s2. Inr (PNone, s2))))))))"

text \<open>
  \<^verbatim>\<open>backspace\<close>.  Its first branch deletes the character before the cursor; if there is
  none at that index, the spaces that wrapping dropped are put back first.
\<close>

definition backspace_char :: "editor \<Rightarrow> int \<Rightarrow> int \<Rightarrow> string \<Rightarrow> error + editor" where
  "backspace_char s ln r line =
     err_bind
       (case py_del line (buffer_idx_x s - 1) of
          Inr line1 \<Rightarrow> Inr (line1, space_counter s)
        | Inl e \<Rightarrow>
            err_bind
              (py_del (line @ replicate (nat (if space_counter s \<noteq> 0 then space_counter s else 1))
                               (CHR '' ''))
                 (buffer_idx_x s - 1)) (\<lambda>line1.
            Inr (if line1 = [] then '' '' else line1, max 0 (space_counter s - 1))))
       (\<lambda>(line1, sc).
     err_bind (rows_of s) (\<lambda>t.
     err_bind (set_row t ln r line1) (\<lambda>t1.
     left (s\<lparr>the_text := Rows t1, space_counter := sc\<rparr>))))"

text \<open>
  The second branch, at the start of a row that is not the first: the cursor goes to the
  row before, which loses its last character and, when it belongs to the line before,
  receives the rows of the current line; an empty row before is deleted with its line.
  The result is the editor and the line index for the rest of \<^verbatim>\<open>backspace\<close>.
\<close>

definition backspace_join :: "editor \<Rightarrow> int \<Rightarrow> error + (editor \<times> int)" where
  "backspace_join s ln =
     err_bind (left s) (\<lambda>s1.
     err_bind (py_get (buffer_list s1) (buffer_idx_y s1)) (\<lambda>(ln0, r0, line0).
     err_bind (rows_of s1) (\<lambda>t.
     err_bind
       (if line0 \<noteq> [] then
          err_bind (set_row t ln0 r0 (butlast line0)) (\<lambda>t1.
          if ln0 < ln then
            err_bind (py_get t1 ln0) (\<lambda>a.
            err_bind (py_get t1 ln) (\<lambda>b.
            err_bind (py_set t1 ln0 (a @ b)) (\<lambda>t2.
            py_del t2 ln)))
          else Inr t1)
        else py_del t ln0)
       (\<lambda>t3. Inr (s1\<lparr>cur_pos_x := max 0 (cur_pos_x s1 - 1), the_text := Rows t3\<rparr>, ln0)))))"

text \<open>
  The end of \<^verbatim>\<open>backspace\<close>: the line is wrapped again and the cursor follows the word
  it was in.
\<close>

definition backspace_rewrap :: "editor \<Rightarrow> int \<Rightarrow> int \<Rightarrow> error + editor" where
  "backspace_rewrap s ln r =
     err_bind (rows_of s) (\<lambda>t.
     err_bind (get_row t ln r) (\<lambda>row.
     err_bind (rewrap t ln (win_size_x s - 1)) (\<lambda>t1.
     err_bind (buffer_set (s\<lparr>the_text := Rows t1\<rparr>)) (\<lambda>s1.
     word_wrap_jump (get_cur_word s row False)
       (case get_row t1 ln r of Inr row1 \<Rightarrow> get_cur_word s row1 False | Inl e \<Rightarrow> [])
       s1))))"

definition backspace :: "editor \<Rightarrow> error + editor" where
  "backspace s =
     err_bind (py_get (buffer_list s) (buffer_idx_y s)) (\<lambda>(ln, r, line).
     if cur_pos_x s > 0 then
       err_bind (backspace_char s ln r line) (\<lambda>s1. backspace_rewrap s1 ln r)
     else if cur_pos_x s = 0 \<and> buffer_idx_y s > 0 then
       err_bind (backspace_join s ln) (\<lambda>(s1, ln0). backspace_rewrap s1 ln0 r)
     else if cur_pos_x s = 0 \<and> buffer_idx_y s = 0 \<and> line = [] then
       err_bind (rows_of s) (\<lambda>t.
       err_bind (py_del t ln) (\<lambda>t1.
       Inr (s\<lparr>the_text := Rows t1\<rparr>)))
     else backspace_rewrap s ln r)"

definition del_char :: "editor \<Rightarrow> error + editor" where
  "del_char s =
     err_bind (py_get (buffer_list s) (buffer_idx_y s)) (\<lambda>(ln, r, line).
     err_bind
       (if line \<noteq> [] \<and> cur_pos_x s < int (length line) then py_del line (buffer_idx_x s)
        else Inr line) (\<lambda>line1.
     err_bind (rows_of s) (\<lambda>t.
     err_bind (set_row t ln r line1) (\<lambda>t1.
     err_bind (rewrap t1 ln (win_size_x s - 1)) (\<lambda>t2.
     Inr (s\<lparr>the_text := Rows t2\<rparr>))))))"

definition del_to_eol :: "editor \<Rightarrow> error + editor" where
  "del_to_eol s =
     err_bind (py_get (buffer_list s) (buffer_idx_y s)) (\<lambda>(ln, r, line).
     err_bind (rows_of s) (\<lambda>t.
     err_bind (set_row t ln r (py_upto line (cur_pos_x s))) (\<lambda>t1.
     Inr (s\<lparr>the_text := Rows t1\<rparr>))))"

definition del_to_bol :: "editor \<Rightarrow> error + editor" where
  "del_to_bol s =
     err_bind (py_get (buffer_list s) (buffer_idx_y s)) (\<lambda>(ln, r, line).
     err_bind (rows_of s) (\<lambda>t.
     err_bind (set_row t ln r (py_from line (cur_pos_x s))) (\<lambda>t1.
     Inr (s\<lparr>the_text := Rows t1, cur_pos_x := 0\<rparr>))))"

subsection \<open>Leaving the editor\<close>

definition quit_nosave :: "editor \<Rightarrow> editor" where
  "quit_nosave s = s\<lparr>the_text := DocFalse\<rparr>"

text \<open>\<^verbatim>\<open>exit\<close>: the result of the session.\<close>

definition exit_result :: "editor \<Rightarrow> pyval" where
  "exit_result s =
     (case the_text s of
        DocMinusOne \<Rightarrow> PMinusOne
      | DocFalse \<Rightarrow> PFalse
      | Rows t \<Rightarrow> PStr (join (CHR 0x0A) (map (join (CHR '' '')) t)))"

definition close :: "editor \<Rightarrow> pyval \<times> editor" where
  "close s = (exit_result (s\<lparr>the_text := DocMinusOne\<rparr>), s\<lparr>the_text := DocMinusOne\<rparr>)"

subsection \<open>The window and the initial text\<close>

text \<open>
  \<^verbatim>\<open>win_init\<close>, statement by statement: the cursor and the offsets are reset; after a
  resize the size grows by one; the largest size is taken from the screen; the window is
  kept inside it; the size is reduced by one; the location is validated.
\<close>

definition win_init_cursor :: "editor \<Rightarrow> editor" where
  "win_init_cursor s =
     s\<lparr>cur_pos_y := 0, cur_pos_x := 0, y_offset := 0, x_offset := 0,
       buffer_idx_y := 0, buffer_idx_x := 0\<rparr>"

definition win_init_resize :: "editor \<Rightarrow> editor" where
  "win_init_resize s =
     (if resize_flag s
      then s\<lparr>win_size_x := win_size_x s + 1, win_size_y := win_size_y s + 1,
             resize_flag := False\<rparr>
      else s)"

definition win_init_max :: "editor \<Rightarrow> editor" where
  "win_init_max s =
     s\<lparr>max_win_size_y := max 0 (fst (scr_maxyx s) - 4),
       max_win_size_x := max 0 (snd (scr_maxyx s) - 3)\<rparr>"

definition win_init_fit_y :: "editor \<Rightarrow> editor" where
  "win_init_fit_y s =
     (if win_size_y s > max_win_size_y s \<or> win_size_y s < win_size_orig_y s
      then s\<lparr>win_size_y := max_win_size_y s\<rparr> else s)"

definition win_init_fit_x :: "editor \<Rightarrow> editor" where
  "win_init_fit_x s =
     (if win_size_x s > max_win_size_x s \<or> win_size_x s < win_size_orig_x s
      then s\<lparr>win_size_x := max_win_size_x s\<rparr> else s)"

definition win_init_reduce :: "editor \<Rightarrow> editor" where
  "win_init_reduce s = s\<lparr>win_size_y := win_size_y s - 1, win_size_x := win_size_x s - 1\<rparr>"

definition win_init_location_x :: "editor \<Rightarrow> editor" where
  "win_init_location_x s =
     (if win_size_x s + win_location_x s \<ge> max_win_size_x s
      then s\<lparr>win_location_x := max 0 (max_win_size_x s - win_size_x s)\<rparr> else s)"

definition win_init_location_y :: "editor \<Rightarrow> editor" where
  "win_init_location_y s =
     (if win_size_y s + win_location_y s \<ge> max_win_size_y s
      then s\<lparr>win_location_y := max 0 (max_win_size_y s - win_size_y s)\<rparr> else s)"

definition win_init :: "editor \<Rightarrow> editor" where
  "win_init s =
     win_init_location_y (win_init_location_x (win_init_reduce (win_init_fit_x
       (win_init_fit_y (win_init_max (win_init_resize (win_init_cursor s)))))))"

text \<open>
  \<^verbatim>\<open>str.splitlines(True)\<close>: the text is cut after each line boundary, \<^verbatim>\<open>\r\n\<close> is one
  boundary, and the boundaries are kept.  \<open>cur\<close> is the line read so far.
\<close>

fun splitlines :: "string \<Rightarrow> string \<Rightarrow> string list" where
  "splitlines cur [] = (if cur = [] then [] else [cur])"
| "splitlines cur [c] = [cur @ [c]]"
| "splitlines cur (c # d # cs) =
     (if c = CHR 0x0D \<and> d = CHR 0x0A then (cur @ [c, d]) # splitlines [] cs
      else if is_linebreak c then (cur @ [c]) # splitlines [] (d # cs)
      else splitlines (cur @ [c]) (d # cs))"

fun err_map :: "('a \<Rightarrow> error + 'b) \<Rightarrow> 'a list \<Rightarrow> error + 'b list" where
  "err_map f [] = Inr []"
| "err_map f (x # xs) =
     err_bind (f x) (\<lambda>y. err_bind (err_map f xs) (\<lambda>ys. Inr (y # ys)))"

definition text_init :: "string \<Rightarrow> editor \<Rightarrow> error + editor" where
  "text_init text s =
     (let t = splitlines [] text
      in
      err_bind
        (if \<not> x_scroll s
         then err_map (\<lambda>i. err_bind (wrap i (win_size_x s - 1))
                               (\<lambda>w. Inr (if w = [] then ['' ''] else w))) t
         else Inr [t]) (\<lambda>rows.
      err_bind (buffer_set (s\<lparr>the_text := Rows rows\<rparr>)) (\<lambda>s1.
      Inr (if 0 < max_text_size s1 \<and> max_text_size s1 < num_rows s1
           then s1\<lparr>max_text_size := num_rows s1\<rparr> else s1))))"

definition resize :: "editor \<Rightarrow> error + editor" where
  "resize s =
     (let s1 = win_init (s\<lparr>resize_flag := True\<rparr>)
      in err_bind (rows_of s1) (\<lambda>t.
         text_init (join (CHR 0x0A) (map (join (CHR '' '')) t)) s1))"

subsection \<open>Drawing\<close>

text \<open>
  What the editor asks of the windows \<^verbatim>\<open>stdscr\<close> (the text), \<^verbatim>\<open>boxscr\<close> (the frame) and
  \<^verbatim>\<open>scr\<close>.  The windows are taken to accept every call; a call on the missing
  \<^verbatim>\<open>boxscr\<close> raises inside \<^verbatim>\<open>display\<close>, which then calls \<^verbatim>\<open>close\<close>.
\<close>

datatype draw =
    StdscrMove int int
  | StdscrClrtoeol
  | StdscrAddstr int int string
  | BoxscrAddstr int int string
  | BoxscrClrtoeol
  | StdscrRefresh
  | BoxscrRefresh
  | ScrRefresh
  | Endwin

function str_nat :: "nat \<Rightarrow> string" where
  "str_nat n =
     (if n < 10 then [char_of (48 + n)] else str_nat (n div 10) @ [char_of (48 + n mod 10)])"
  by pat_completeness auto
termination
  by (relation "measure id") auto

declare str_nat.simps [simp del]

definition str_int :: "int \<Rightarrow> string" where
  "str_int i = (if i < 0 then CHR ''-'' # str_nat (nat (- i)) else str_nat (nat i))"

text \<open>\<^verbatim>\<open>"{},{},{},{}".format(space_counter, cur_pos_x, buffer_idx_x, buf_length)\<close>.\<close>

definition status_line :: "editor \<Rightarrow> string" where
  "status_line s =
     str_int (space_counter s) @ '','' @ str_int (cur_pos_x s) @ '','' @
     str_int (buffer_idx_x s) @ '','' @ str_int (buf_length s)"

text \<open>\<^verbatim>\<open>xs[a:b]\<close>.\<close>

definition py_slice :: "'a list \<Rightarrow> int \<Rightarrow> int \<Rightarrow> 'a list" where
  "py_slice xs a b = take (py_bound xs b - py_bound xs a) (drop (py_bound xs a) xs)"

text \<open>The body of the loop of \<^verbatim>\<open>display\<close> for the row \<open>y\<close> of the window.\<close>

definition display_row :: "int \<Rightarrow> string \<Rightarrow> editor \<Rightarrow> draw list \<times> editor" where
  "display_row y row s =
     ([StdscrMove y 0, StdscrClrtoeol] @
      (if \<not> pw_mode s then [StdscrAddstr y 0 row] else []) @
      (if box s \<or> title s \<noteq> [] then [BoxscrAddstr 0 0 (status_line s), BoxscrClrtoeol]
       else [Endwin]),
      (if box s \<or> title s \<noteq> [] then s else snd (close s)))"

fun display_rows :: "int \<Rightarrow> (int \<times> int \<times> string) list \<Rightarrow> editor \<Rightarrow> draw list \<times> editor" where
  "display_rows y [] s = ([], s)"
| "display_rows y ((ln, r, row) # rows) s =
     (case display_row y row s of (d1, s1) \<Rightarrow>
      case display_rows (y + 1) rows s1 of (d2, s2) \<Rightarrow> (d1 @ d2, s2))"

definition display :: "editor \<Rightarrow> draw list \<times> editor" where
  "display s =
     (case display_rows 0
             (py_slice (buffer_list s) (y_offset s)
                (if y_offset s + win_size_y s \<noteq> 0 then y_offset s + win_size_y s else 1)) s
      of (d, s1) \<Rightarrow>
        (d @ [StdscrRefresh] @ (if box s1 then [BoxscrRefresh] else []) @ [ScrRefresh], s1))"

subsection \<open>Keys\<close>

datatype handler =
    HBackspace | HDown | HEnd | HInsertLineOrQuit | HHome | HDelChar | HLeft | HPageDown
  | HPageUp | HRight | HUp | HHelp | HQuit | HQuitNosave | HResize | HDelToBol | HDelToEol
  | HClose | HInsertTab

text \<open>
  \<^verbatim>\<open>self.keys\<close>, with the values of the key codes of curses: \<^verbatim>\<open>KEY_BACKSPACE\<close> 263,
  \<^verbatim>\<open>KEY_DOWN\<close> 258, \<^verbatim>\<open>KEY_END\<close> 360, \<^verbatim>\<open>KEY_ENTER\<close> 343, \<^verbatim>\<open>KEY_HOME\<close> 262,
  \<^verbatim>\<open>KEY_DC\<close> 330, \<^verbatim>\<open>KEY_LEFT\<close> 260, \<^verbatim>\<open>KEY_NPAGE\<close> 338, \<^verbatim>\<open>KEY_PPAGE\<close> 339,
  \<^verbatim>\<open>KEY_RIGHT\<close> 261, \<^verbatim>\<open>KEY_UP\<close> 259, \<^verbatim>\<open>KEY_F1\<close> 265, \<^verbatim>\<open>KEY_F2\<close> 266, \<^verbatim>\<open>KEY_F5\<close> 269,
  \<^verbatim>\<open>KEY_RESIZE\<close> 410.
\<close>

definition keys :: "key \<Rightarrow> handler option" where
  "keys k =
     (case k of
        KeyCode n \<Rightarrow>
          (if n = 263 then Some HBackspace
           else if n = 258 then Some HDown
           else if n = 360 then Some HEnd
           else if n = 343 then Some HInsertLineOrQuit
           else if n = 262 then Some HHome
           else if n = 330 then Some HDelChar
           else if n = 260 then Some HLeft
           else if n = 338 then Some HPageDown
           else if n = 339 then Some HPageUp
           else if n = 261 then Some HRight
           else if n = 259 then Some HUp
           else if n = 265 then Some HHelp
           else if n = 266 then Some HQuit
           else if n = 269 then Some HQuitNosave
           else if n = 410 then Some HResize
           else if n = - 1 then Some HResize
           else None)
      | KeyChar c \<Rightarrow>
          (if c = CHR 0x18 then Some HQuit
           else if c = CHR 0x15 then Some HDelToBol
           else if c = CHR 0x0B then Some HDelToEol
           else if c = CHR 0x04 then Some HClose
           else if c = CHR 0x7F then Some HBackspace
           else if c = CHR 0x0A then Some HInsertLineOrQuit
           else if c = CHR 0x08 then Some HBackspace
           else if c = CHR 0x1B then Some HQuitNosave
           else if c = CHR 0x03 then Some HClose
           else if c = CHR 0x09 then Some HInsertTab
           else None))"

definition returns_none :: "error + editor \<Rightarrow> error + (pyval \<times> editor)" where
  "returns_none m = err_bind m (\<lambda>s. Inr (PNone, s))"

text \<open>
  The call of a handler.  \<^verbatim>\<open>help\<close> shows a popup and draws the frame again; it changes
  no field.
\<close>

fun call_handler :: "handler \<Rightarrow> editor \<Rightarrow> error + (pyval \<times> editor)" where
  "call_handler HBackspace s = returns_none (backspace s)"
| "call_handler HDown s = returns_none (down s)"
| "call_handler HEnd s = Inr (PNone, cursor_end s)"
| "call_handler HInsertLineOrQuit s = insert_line_or_quit s"
| "call_handler HHome s = Inr (PNone, home s)"
| "call_handler HDelChar s = returns_none (del_char s)"
| "call_handler HLeft s = returns_none (left s)"
| "call_handler HPageDown s = returns_none (page_down s)"
| "call_handler HPageUp s = returns_none (page_up s)"
| "call_handler HRight s = returns_none (right s)"
| "call_handler HUp s = returns_none (up s)"
| "call_handler HHelp s = Inr (PNone, s)"
| "call_handler HQuit s = Inr (PFalse, s)"
| "call_handler HQuitNosave s = Inr (PFalse, quit_nosave s)"
| "call_handler HResize s = returns_none (resize s)"
| "call_handler HDelToBol s = returns_none (del_to_bol s)"
| "call_handler HDelToEol s = returns_none (del_to_eol s)"
| "call_handler HClose s = Inr (close s)"
| "call_handler HInsertTab s = returns_none (insert_tab s)"

text \<open>
  \<^verbatim>\<open>get_key\<close> for the key \<open>k\<close> that \<^verbatim>\<open>get_wch\<close> read: a key that is not in the table
  is given to \<^verbatim>\<open>insert_char\<close>.
\<close>

definition get_key :: "key \<Rightarrow> editor \<Rightarrow> error + (pyval \<times> editor)" where
  "get_key k s =
     (case keys k of
        Some h \<Rightarrow> call_handler h s
      | None \<Rightarrow> err_bind (insert_char k s) (\<lambda>s1. Inr (PTrue, s1)))"

text \<open>
  One turn of the loop of \<^verbatim>\<open>run\<close> for the key \<open>k\<close>: the result of the session when
  the loop ends there, what was drawn, and the editor.
\<close>

definition run_step :: "key \<Rightarrow> editor \<Rightarrow> error + (pyval option \<times> draw list \<times> editor)" where
  "run_step k s =
     err_bind (get_key k s) (\<lambda>(loop, s1).
     if loop = PFalse \<or> loop = PMinusOne then Inr (Some (exit_result s1), [], s1)
     else err_bind (buffer_set s1) (\<lambda>s2.
          case display s2 of (d, s3) \<Rightarrow> Inr (None, d, s3)))"

text \<open>
  The loop on the keys that arrive, until one ends the session: the result of the
  session (\<open>None\<close> when the editor still waits for a key after the last one), all that
  was drawn, and the editor.
\<close>

fun run_loop :: "key list \<Rightarrow> editor \<Rightarrow> error + (pyval option \<times> draw list \<times> editor)" where
  "run_loop [] s = Inr (None, [], s)"
| "run_loop (k # ks) s =
     err_bind (run_step k s) (\<lambda>(res, d, s1).
     case res of
       Some v \<Rightarrow> Inr (Some v, d, s1)
     | None \<Rightarrow> err_bind (run_loop ks s1) (\<lambda>(res2, d2, s2). Inr (res2, d @ d2, s2)))"

definition run :: "key list \<Rightarrow> editor \<Rightarrow> error + pyval option" where
  "run ks s = err_bind (run_loop ks s) (\<lambda>(res, d, s1). Inr res)"

text \<open>The editor after the keys.\<close>

definition after_keys :: "key list \<Rightarrow> editor \<Rightarrow> error + editor" where
  "after_keys ks s = err_bind (run_loop ks s) (\<lambda>(res, d, s1). Inr s1)"


text \<open>
  \<^verbatim>\<open>__init__\<close>: the editor before the first key, for the size \<open>maxyx\<close> of the screen and
  the arguments of the constructor.
\<close>

definition editor_init ::
  "int \<times> int \<Rightarrow> string \<Rightarrow> string \<Rightarrow> int \<times> int \<Rightarrow> int \<times> int \<Rightarrow> bool \<Rightarrow> int \<Rightarrow> bool
     \<Rightarrow> error + editor" where
  "editor_init maxyx title_arg inittext win_location win_size box_arg max_text_size_arg pw =
     (let s0 = \<lparr>space_counter = 0, title = title_arg, box = box_arg,
                max_text_size = max_text_size_arg, pw_mode = pw, resize_flag = False,
                scr_maxyx = maxyx, win_location_x = fst win_location,
                win_location_y = snd win_location, win_size_orig_y = fst win_size,
                win_size_orig_x = snd win_size, win_size_y = fst win_size,
                win_size_x = snd win_size, max_win_size_y = 0, max_win_size_x = 0,
                x_scroll = (fst win_size < 2 \<and> max_text_size_arg = 1),
                cur_pos_y = 0, cur_pos_x = 0, y_offset = 0, x_offset = 0,
                buffer_idx_y = 0, buffer_idx_x = 0, the_text = Rows [], max_cols = 0,
                num_rows = 0, buffer_list = [], buf_length = 0\<rparr>
      in err_bind (text_init (if inittext = [] then '' '' else inittext) (win_init s0))
           (\<lambda>s1. Inr (snd (display s1))))"

subsection \<open>Editors for the examples\<close>

text \<open>
  A one-row password-style entry (one row, row cap 1) holding \<open>hello\<close>, and an editor
  whose text \<open>aaa bb\<close> is wrapped at 5 columns into the two rows its cap of 2 allows, both
  as \<^verbatim>\<open>__init__\<close> leaves them on a screen of 24 by 80.
\<close>

definition ed_single :: editor where
  "ed_single =
     \<lparr>space_counter = 0, title = ''Title'', box = True, max_text_size = 1,
      pw_mode = False, resize_flag = False, scr_maxyx = (24, 80),
      win_location_x = 0, win_location_y = 0, win_size_orig_y = 1,
      win_size_orig_x = 80, win_size_y = 0, win_size_x = 76,
      max_win_size_y = 20, max_win_size_x = 77, x_scroll = True,
      cur_pos_y = 0, cur_pos_x = 0, y_offset = 0, x_offset = 0,
      buffer_idx_y = 0, buffer_idx_x = 0, the_text = Rows [[''hello'']],
      max_cols = 5, num_rows = 1, buffer_list = [(0, 0, ''hello'')],
      buf_length = 5\<rparr>"

definition ed_capped :: editor where
  "ed_capped =
     \<lparr>space_counter = 0, title = ''T'', box = True, max_text_size = 2,
      pw_mode = False, resize_flag = False, scr_maxyx = (24, 80),
      win_location_x = 0, win_location_y = 0, win_size_orig_y = 5,
      win_size_orig_x = 7, win_size_y = 4, win_size_x = 6,
      max_win_size_y = 20, max_win_size_x = 77, x_scroll = False,
      cur_pos_y = 0, cur_pos_x = 0, y_offset = 0, x_offset = 0,
      buffer_idx_y = 0, buffer_idx_x = 0,
      the_text = Rows [[''aaa'', ''bb'']], max_cols = 3, num_rows = 2,
      buffer_list = [(0, 0, ''aaa''), (0, 1, ''bb'')], buf_length = 3\<rparr>"

text \<open>
  A one-row entry of 5 columns (row cap 1) that held \<open>aaaa\<close>, after the keys End, space
  and \<open>b\<close>: its line has two rows.  The same editor with a text of two lines, the first
  of two rows.
\<close>

definition ed_two_rows :: editor where
  "ed_two_rows =
     \<lparr>space_counter = 2, title = ''T'', box = True, max_text_size = 1,
      pw_mode = False, resize_flag = False, scr_maxyx = (24, 80),
      win_location_x = 0, win_location_y = 0, win_size_orig_y = 1,
      win_size_orig_x = 7, win_size_y = 0, win_size_x = 6,
      max_win_size_y = 20, max_win_size_x = 77, x_scroll = True,
      cur_pos_y = 0, cur_pos_x = 6, y_offset = 0, x_offset = 0,
      buffer_idx_y = 0, buffer_idx_x = 6,
      the_text = Rows [[''aaaa  '', ''b'']], max_cols = 6, num_rows = 2,
      buffer_list = [(0, 0, ''aaaa  ''), (0, 1, ''b'')], buf_length = 6\<rparr>"


text \<open>
  A one-row entry (row cap 1) made without a box and without a title on \<open>hello\<close>, as
  \<^verbatim>\<open>__init__\<close> leaves it: there is no window \<^verbatim>\<open>boxscr\<close>, the first
  \<^verbatim>\<open>display\<close> fails on it and calls \<^verbatim>\<open>close\<close>, and the text is \<^verbatim>\<open>-1\<close>.
\<close>

definition ed_aborted :: editor where
  "ed_aborted =
     \<lparr>space_counter = 0, title = [], box = False, max_text_size = 1,
      pw_mode = False, resize_flag = False, scr_maxyx = (24, 80),
      win_location_x = 0, win_location_y = 0, win_size_orig_y = 1,
      win_size_orig_x = 80, win_size_y = 0, win_size_x = 76,
      max_win_size_y = 20, max_win_size_x = 77, x_scroll = True,
      cur_pos_y = 0, cur_pos_x = 0, y_offset = 0, x_offset = 0,
      buffer_idx_y = 0, buffer_idx_x = 0, the_text = DocMinusOne,
      max_cols = 5, num_rows = 1, buffer_list = [(0, 0, ''hello'')],
      buf_length = 5\<rparr>"

text \<open>An editor of 5 columns on the text \<open>ab\<close>, as \<^verbatim>\<open>__init__\<close> leaves it.\<close>

definition ed_ab :: editor where
  "ed_ab =
     \<lparr>space_counter = 0, title = ''T'', box = True, max_text_size = 0,
      pw_mode = False, resize_flag = False, scr_maxyx = (24, 80),
      win_location_x = 0, win_location_y = 0, win_size_orig_y = 5,
      win_size_orig_x = 7, win_size_y = 4, win_size_x = 6,
      max_win_size_y = 20, max_win_size_x = 77, x_scroll = False,
      cur_pos_y = 0, cur_pos_x = 0, y_offset = 0, x_offset = 0,
      buffer_idx_y = 0, buffer_idx_x = 0, the_text = Rows [[''ab'']],
      max_cols = 2, num_rows = 1, buffer_list = [(0, 0, ''ab'')],
      buf_length = 2\<rparr>"

text \<open>The keys that call \<^verbatim>\<open>insert_line_or_quit\<close>: \<^verbatim>\<open>KEY_ENTER\<close> and the newline.\<close>

definition enter_keys :: "key list" where
  "enter_keys = [KeyCode 343, KeyChar (CHR 0x0A)]"

section \<open>Properties\<close>

lemma err_bind_simps [simp]:
  "err_bind (Inl e) f = Inl e"
  "err_bind (Inr x) f = f x"
  by (simp_all add: err_bind_def)

lemma err_bind_eq_Inr: "err_bind m f = Inr y \<longleftrightarrow> (\<exists>x. m = Inr x \<and> f x = Inr y)"
  by (cases m) simp_all

lemma ed_single_init:
  "editor_init (24, 80) ''Title'' ''hello'' (0, 0) (1, 80) True 1 False = Inr ed_single"
  by code_simp

lemma ed_capped_init:
  "editor_init (24, 80) ''T'' ''aaa bb'' (0, 0) (5, 7) True 2 False = Inr ed_capped"
  by code_simp

lemma keys_enter: "k \<in> set enter_keys \<Longrightarrow> keys k = Some HInsertLineOrQuit"
  by (auto simp: enter_keys_def keys_def)

lemma buffer_set_fields:
  assumes "buffer_set s0 = Inr s"
  shows "the_text s = the_text s0"
    and "the_text s0 = Rows t \<Longrightarrow> num_rows s = int (length (concat t))"
  using assms
  by (auto simp: buffer_set_def rows_of_def Let_def err_bind_eq_Inr split: doc.splits)

text \<open>
  C10.  A key that is an integer code and is not in the table of keys is passed to
  \<^verbatim>\<open>insert_char\<close>, which returns at once: the whole editor (text, cursor, offsets and
  the counter of spaces) is as before, and the loop goes on.
\<close>

theorem integer_keycode_noop:
  "insert_char (KeyCode n) s = Inr s \<and>
   (keys (KeyCode n) = None \<longrightarrow> get_key (KeyCode n) s = Inr (PTrue, s))"
  by (simp add: get_key_def)

theorem integer_keycode_noop_witness:
  "keys (KeyCode 300) = None \<and> insert_char (KeyCode 300) ed_capped = Inr ed_capped \<and>
   get_key (KeyCode 300) ed_capped = Inr (PTrue, ed_capped)"
  using integer_keycode_noop [of 300 ed_capped] by (simp add: keys_def)

lemma ed_two_rows_reached:
  "err_bind (editor_init (24, 80) ''T'' ''aaaa'' (0, 0) (1, 7) True 1 False)
     (after_keys [KeyCode 360, KeyChar (CHR '' ''), KeyChar (CHR ''b'')]) = Inr ed_two_rows"
  by code_simp

lemma ed_aborted_init:
  "editor_init (24, 80) [] ''hello'' (0, 0) (1, 80) False 1 False = Inr ed_aborted"
  by code_simp




text \<open>
  In an editor as \<^verbatim>\<open>buffer_set\<close> leaves it (the loop calls it before every key), with a
  row cap other than 1, when the number of rows of the text is equal to the row cap,
  Enter returns without changing any field of the editor.
\<close>

lemma row_cap_noop:
  assumes "buffer_set s0 = Inr s" and "the_text s = Rows t"
    and "max_text_size s \<noteq> 1" and "int (length (concat t)) = max_text_size s"
    and "k \<in> set enter_keys"
  shows "insert_line_or_quit s = Inr (PNone, s) \<and> get_key k s = Inr (PNone, s)"
proof -
  have "the_text s0 = Rows t"
    using buffer_set_fields(1) [OF assms(1)] assms(2) by simp
  then have "num_rows s = int (length (concat t))"
    by (rule buffer_set_fields(2) [OF assms(1)])
  then have "num_rows s = max_text_size s"
    using assms(4) by simp
  then show ?thesis
    using assms(3) keys_enter [OF assms(5)]
    by (simp add: insert_line_or_quit_def get_key_def)
qed

lemma row_cap_noop_example:
  "buffer_set ed_capped = Inr ed_capped \<and> the_text ed_capped = Rows [[''aaa'', ''bb'']] \<and>
   max_text_size ed_capped \<noteq> 1 \<and>
   int (length (concat [[''aaa'', ''bb'']])) = max_text_size ed_capped \<and>
   KeyCode 343 \<in> set enter_keys \<and>
   insert_line_or_quit ed_capped = Inr (PNone, ed_capped) \<and>
   get_key (KeyCode 343) ed_capped = Inr (PNone, ed_capped)"
proof -
  have h0: "buffer_set ed_capped = Inr ed_capped" by code_simp
  have h1: "the_text ed_capped = Rows [[''aaa'', ''bb'']]" by (simp add: ed_capped_def)
  have h2: "max_text_size ed_capped \<noteq> 1" by (simp add: ed_capped_def)
  have h3: "int (length (concat [[''aaa'', ''bb'']])) = max_text_size ed_capped"
    by (simp add: ed_capped_def)
  have h4: "KeyCode 343 \<in> set enter_keys" by (simp add: enter_keys_def)
  show ?thesis using row_cap_noop [OF h0 h1 h2 h3 h4] h0 h1 h2 h3 h4 by simp
qed

text \<open>
  C7.  The text \<open>aaaaa bbbbb\<close> wrapped at 5 columns has two rows, and the row cap is 2.
  The key \<open>c\<close> makes \<^verbatim>\<open>insert_char\<close> wrap the line into three rows, one more than the
  cap.  Enter then finds the number of rows different from the cap
  (\<^verbatim>\<open>self.num_rows == self.max_text_size\<close> is false) and splits the line: the text has two
  lines and four rows, and the cursor has moved from row 0, column 1 to row 1, column 0.
\<close>

theorem enter_above_cap_splits:
  "err_bind (editor_init (24, 80) ''T'' ''aaaaa bbbbb'' (0, 0) (5, 7) True 2 False)
     (\<lambda>s. Inr (the_text s, num_rows s, max_text_size s))
     = Inr (Rows [[''aaaaa'', ''bbbbb'']], 2, 2) \<and>
   err_bind (editor_init (24, 80) ''T'' ''aaaaa bbbbb'' (0, 0) (5, 7) True 2 False)
     (\<lambda>s. err_bind (after_keys [KeyChar (CHR ''c'')] s)
       (\<lambda>s1. Inr (the_text s1, num_rows s1, max_text_size s1, cur_pos_y s1, cur_pos_x s1)))
     = Inr (Rows [[''caaaa '', ''a'', ''bbbbb'']], 3, 2, 0, 1) \<and>
   err_bind (editor_init (24, 80) ''T'' ''aaaaa bbbbb'' (0, 0) (5, 7) True 2 False)
     (\<lambda>s. err_bind (after_keys [KeyChar (CHR ''c'')] s)
       (\<lambda>s1. err_bind (get_key (KeyCode 343) s1)
         (\<lambda>(v, s2). Inr (v, the_text s2, num_rows s2, cur_pos_y s2, cur_pos_x s2))))
     = Inr (PNone, Rows [[''c''], [''aaaa '', ''a'', ''bbbbb'']], 4, 1, 0)"
  by code_simp

text \<open>
  C1.  The row \<open>ab\<close>, the cursor at its start, the key \<open>c\<close>: the row is \<open>cab\<close> after the
  insertion and wrapping it drops no space, yet \<^verbatim>\<open>insert_char\<close> leaves the row
  \<open>cab\<close> followed by a space, and saving with F2 returns that text.  The counter of spaces
  is the number of spaces at the end of the row plus one, so one space too many is
  appended at every insertion.
\<close>

theorem insert_char_appends_extra_space:
  "wrap ''cab'' 5 = Inr [''cab''] \<and>
   err_bind (editor_init (24, 80) ''T'' ''ab'' (0, 0) (5, 7) True 0 False)
     (\<lambda>s. err_bind (insert_char (KeyChar (CHR ''c'')) s)
       (\<lambda>s1. Inr (the_text s1, space_counter s1))) = Inr (Rows [[''cab '']], 1) \<and>
   err_bind (editor_init (24, 80) ''T'' ''ab'' (0, 0) (5, 7) True 0 False)
     (run [KeyChar (CHR ''c''), KeyCode 266]) = Inr (Some (PStr ''cab ''))"
  by code_simp

text \<open>
  C3.  The text \<open>aaa bb\<close> wrapped at 5 columns has the rows \<open>aaa\<close> and \<open>bb\<close>.  After the
  key Down the cursor is on the second row.  The key Delete removes a \<open>b\<close> and wraps the
  line into the single row \<open>aaa b\<close>, and leaves the cursor where it was: the row of the
  cursor in the buffer is 1 and the text has 1 row.  \<^verbatim>\<open>buffer_set\<close>, which the loop
  calls next, raises \<^verbatim>\<open>IndexError\<close>, and so does the loop.
\<close>

theorem del_char_cursor_below_text:
  "err_bind (editor_init (24, 80) ''T'' ''aaa bb'' (0, 0) (5, 7) True 0 False)
     (\<lambda>s. err_bind (after_keys [KeyCode 258] s)
       (\<lambda>s1. err_bind (get_key (KeyCode 330) s1)
         (\<lambda>(v, s2). Inr (the_text s2, cur_pos_y s2 + y_offset s2, buffer_set s2))))
     = Inr (Rows [[''aaa b'']], 1, Inl IndexError) \<and>
   err_bind (editor_init (24, 80) ''T'' ''aaa bb'' (0, 0) (5, 7) True 0 False)
     (run [KeyCode 258, KeyCode 330]) = Inl IndexError"
  by code_simp

text \<open>
  C9.  The text \<open>aaaa bb\<close> wrapped at 5 columns has the rows \<open>aaaa\<close> and \<open>bb\<close>.  The keys
  Right, Control-K (delete to the end of the line) and Down leave the rows \<open>a\<close> and \<open>bb\<close>
  and the cursor on the second.  The key \<open>c\<close> is not in the table of keys; \<^verbatim>\<open>get_key\<close>
  passes it to \<^verbatim>\<open>insert_char\<close>, which wraps the line into the single row \<open>a bcb\<close> and
  then reads the second row of the line: \<^verbatim>\<open>IndexError\<close> leaves \<^verbatim>\<open>get_key\<close> and the
  loop.
\<close>

theorem unrecognized_key_raises:
  "keys (KeyChar (CHR ''c'')) = None \<and>
   err_bind (editor_init (24, 80) ''T'' ''aaaa bb'' (0, 0) (5, 7) True 0 False)
     (\<lambda>s. err_bind (after_keys [KeyCode 261, KeyChar (CHR 0x0B), KeyCode 258] s)
       (\<lambda>s1. Inr (the_text s1, cur_pos_y s1, cur_pos_x s1)))
     = Inr (Rows [[''a'', ''bb'']], 1, 1) \<and>
   err_bind (editor_init (24, 80) ''T'' ''aaaa bb'' (0, 0) (5, 7) True 0 False)
     (\<lambda>s. err_bind (after_keys [KeyCode 261, KeyChar (CHR 0x0B), KeyCode 258] s)
       (get_key (KeyChar (CHR ''c'')))) = Inl IndexError \<and>
   err_bind (editor_init (24, 80) ''T'' ''aaaa bb'' (0, 0) (5, 7) True 0 False)
     (run [KeyCode 261, KeyChar (CHR 0x0B), KeyCode 258, KeyChar (CHR ''c'')]) = Inl IndexError"
  by code_simp

subsection \<open>The flag of the masked display\<close>

text \<open>
  Every method commutes with a change of \<^verbatim>\<open>pw_mode\<close>: run on the editor with the flag
  changed, it fails with the same error or returns the same editor with the flag changed.
\<close>

lemma ed_ab_init: "editor_init (24, 80) ''T'' ''ab'' (0, 0) (5, 7) True 0 False = Inr ed_ab"
  by code_simp













lemma get_cur_word_pw [simp]: "get_cur_word (pw_mode_update h s) = get_cur_word s"
  by (simp add: get_cur_word_def fun_eq_iff)













lemma exit_result_pw [simp]: "exit_result (pw_mode_update h s) = exit_result s"
  by (simp add: exit_result_def)



























end
